theory Spec2Isabelle
  imports Complex_Main "HOL-Library.Sublist"
begin

section \<open>Python strings\<close>

text \<open>
  A Python \<open>str\<close> is a sequence of Unicode code points; \<open>len\<close>, slicing, \<open>replace\<close>
  and \<open>strip\<close> all count code points. A string is therefore a list of code points
  (natural numbers), and a literal of the source is written \<open>py ''...''\<close>.
\<close>

type_synonym pystr = "nat list"

definition py :: "string \<Rightarrow> pystr" where
  "py cs = map of_char cs"

definition dquote :: nat where
  "dquote = 34"

definition backslash :: nat where
  "backslash = 92"

definition newline :: nat where
  "newline = 10"

definition carriage_return :: nat where
  "carriage_return = 13"

definition space :: nat where
  "space = 32"

text \<open>\<open>text.replace(c, r)\<close> for a pattern \<open>c\<close> of one character.\<close>

definition replace1 :: "nat \<Rightarrow> pystr \<Rightarrow> pystr \<Rightarrow> pystr" where
  "replace1 c r t = concat (map (\<lambda>x. if x = c then r else [x]) t)"

text \<open>
  The characters \<open>str.strip()\<close> removes from both ends: those for which
  \<open>str.isspace\<close> holds.
\<close>

definition isspace :: "nat \<Rightarrow> bool" where
  "isspace c \<longleftrightarrow>
     (9 \<le> c \<and> c \<le> 13) \<or> (28 \<le> c \<and> c \<le> 32) \<or> c = 133 \<or> c = 160 \<or> c = 5760 \<or>
     (8192 \<le> c \<and> c \<le> 8202) \<or> c = 8232 \<or> c = 8233 \<or> c = 8239 \<or> c = 8287 \<or> c = 12288"

definition strip :: "pystr \<Rightarrow> pystr" where
  "strip t = rev (dropWhile isspace (rev (dropWhile isspace t)))"

text \<open>\<open>sub in s\<close>: \<open>sub\<close> occurs in \<open>s\<close> as a contiguous run.\<close>

fun contains :: "pystr \<Rightarrow> pystr \<Rightarrow> bool" where
  "contains sub [] = (sub = [])"
| "contains sub (c # cs) = (prefix sub (c # cs) \<or> contains sub cs)"

text \<open>\<open>s[i:j]\<close> for \<open>0 \<le> i \<le> j\<close>.\<close>

definition slice :: "nat \<Rightarrow> nat \<Rightarrow> pystr \<Rightarrow> pystr" where
  "slice i j s = take (j - i) (drop i s)"

text \<open>\<open>str(n)\<close> of an integer: its decimal digits, with a minus sign when negative.\<close>

fun str_nat :: "nat \<Rightarrow> pystr" where
  "str_nat n = (if n < 10 then [48 + n] else str_nat (n div 10) @ [48 + n mod 10])"

declare str_nat.simps [simp del]

definition str_int :: "int \<Rightarrow> pystr" where
  "str_int i = (if i < 0 then 45 # str_nat (nat (- i)) else str_nat (nat i))"

text \<open>The format \<open>{n:04d}\<close> of a natural number: zero-padded to four digits.\<close>

definition fmt_04d :: "nat \<Rightarrow> pystr" where
  "fmt_04d n = replicate (4 - length (str_nat n)) 48 @ str_nat n"

section \<open>Listing Parser and Pagination Driver (pharmacy\_scraper.py)\<close>

record PharmacyRaw =
  name :: pystr
  address :: pystr
  city :: pystr
  phone :: pystr
  page_number :: int
  source_url :: pystr

text \<open>
  One \<open>li.ag_listing_item\<close> element, as the four \<open>find\<close> calls of \<open>scrape_page\<close> see
  it: the \<open>href\<close> of its first anchor that has one, and the stripped text of its
  \<open>h3[itemprop=name]\<close>, \<open>span[itemprop=addressRegion]\<close> and
  \<open>span[itemprop=telephone]\<close> elements; \<open>None\<close> where \<open>find\<close> returns \<open>None\<close>.
\<close>

record listing =
  link_href :: "pystr option"
  name_text :: "pystr option"
  city_text :: "pystr option"
  phone_text :: "pystr option"

text \<open>
  \<open>re.sub(r'[^\d]', '', phone_text)\<close> keeps exactly the characters of the class
  \<open>\d\<close>. The class is the regular-expression library's (the Unicode decimal digits);
  it is the parameter \<open>isdigit\<close>.
\<close>

definition sub_non_digits :: "(nat \<Rightarrow> bool) \<Rightarrow> pystr \<Rightarrow> pystr" where
  "sub_non_digits isdigit txt = filter isdigit txt"

text \<open>Lines 102--110 of \<open>scrape_page\<close>: the phone of a listing.\<close>

definition format_phone :: "pystr \<Rightarrow> pystr" where
  "format_phone ph =
     (if length ph = 10
      then slice 0 2 ph @ [space] @ slice 2 4 ph @ [space] @ slice 4 6 ph @ [space] @
           slice 6 8 ph @ [space] @ slice 8 10 ph
      else ph)"

definition extract_phone :: "(nat \<Rightarrow> bool) \<Rightarrow> pystr option \<Rightarrow> pystr" where
  "extract_phone isdigit phone_elem =
     (case phone_elem of
        None \<Rightarrow> []
      | Some txt \<Rightarrow> format_phone (sub_non_digits isdigit txt))"

definition kenitra :: pystr where
  "kenitra = py ''K'' @ [233] @ py ''nitra''"

definition extract_city :: "pystr option \<Rightarrow> pystr" where
  "extract_city city_elem =
     strip (replace1 carriage_return [] (replace1 newline []
       (case city_elem of None \<Rightarrow> kenitra | Some t \<Rightarrow> t)))"

text \<open>
  The body of the loop over the listings of a page (lines 84--128): \<open>None\<close> is
  \<open>continue\<close>, \<open>Some\<close> is the record appended.
\<close>

definition parse_listing :: "(nat \<Rightarrow> bool) \<Rightarrow> int \<Rightarrow> pystr \<Rightarrow> listing \<Rightarrow> PharmacyRaw option" where
  "parse_listing isdigit page url l =
     (case link_href l of
        None \<Rightarrow> None
      | Some href \<Rightarrow>
          if \<not> contains (py ''/pharmacies/'') href then None
          else (case name_text l of
                  None \<Rightarrow> None
                | Some nm \<Rightarrow>
                    let cty = extract_city (city_text l);
                        ph = extract_phone isdigit (phone_text l)
                    in Some \<lparr> name = nm,
                              address = nm @ py '', '' @ cty @ py '', Morocco'',
                              city = cty,
                              phone = ph,
                              page_number = page,
                              source_url = url \<rparr>))"

fun scrape_listings ::
  "(nat \<Rightarrow> bool) \<Rightarrow> int \<Rightarrow> pystr \<Rightarrow> listing list \<Rightarrow> PharmacyRaw list \<Rightarrow> PharmacyRaw list" where
  "scrape_listings isdigit page url [] pharmacies = pharmacies"
| "scrape_listings isdigit page url (l # ls) pharmacies =
     (case parse_listing isdigit page url l of
        None \<Rightarrow> scrape_listings isdigit page url ls pharmacies
      | Some pharmacy \<Rightarrow> scrape_listings isdigit page url ls (pharmacies @ [pharmacy]))"







section \<open>The Rabat scraper (scrape\_rabat.py)\<close>

record RabatDict =
  name :: pystr
  phone :: pystr
  address :: pystr
  city :: pystr
  geocoded :: bool
  latitude :: real
  longitude :: real

definition rabat_listing :: "listing \<Rightarrow> RabatDict option" where
  "rabat_listing l =
     (case link_href l of
        None \<Rightarrow> None
      | Some href \<Rightarrow>
          if contains (py ''/pharmacies/'') href
          then (case name_text l of
                  None \<Rightarrow> None
                | Some nm \<Rightarrow>
                    Some \<lparr> RabatDict.name = nm,
                           RabatDict.phone = (case phone_text l of None \<Rightarrow> [] | Some t \<Rightarrow> t),
                           RabatDict.address = nm @ py '', Rabat, Morocco'',
                           RabatDict.city = py ''Rabat'',
                           geocoded = False,
                           latitude = 0,
                           longitude = 0 \<rparr>)
          else None)"

fun rabat_listings :: "listing list \<Rightarrow> RabatDict list \<Rightarrow> RabatDict list" where
  "rabat_listings [] pharmacies = pharmacies"
| "rabat_listings (l # ls) pharmacies =
     (case rabat_listing l of
        None \<Rightarrow> rabat_listings ls pharmacies
      | Some d \<Rightarrow> rabat_listings ls (pharmacies @ [d]))"






section \<open>Geocoder and Geocoding Driver (pharmacy\_scraper.py)\<close>

text \<open>
  The JSON body of a search response: its top-level \<open>status\<close> and its \<open>results\<close>
  array. A request either raises (timeout, connection error, HTTP error, a body that is
  not JSON) or returns a body. The service is a parameter: the outcome of the request a
  loop makes in its turn \<open>n\<close>, given the query text.
\<close>

record 'r api_response =
  status :: pystr
  results :: "'r list"

datatype 'r api_outcome = Raises | Response "'r api_response"

type_synonym 'r api = "nat \<Rightarrow> pystr \<Rightarrow> 'r api_outcome"

text \<open>
  \<open>result['geometry']['location']\<close> with its \<open>lat\<close> and \<open>lng\<close>. The code only
  copies coordinates and compares a latitude with \<open>0.0\<close>, so a coordinate is a real
  number.
\<close>

record location =
  lat :: real
  lng :: real

text \<open>A result of the Geocoding API, which \<open>geocode_address\<close> calls.\<close>

record geocoding_result = location +
  formatted_address :: pystr

text \<open>The dictionary \<open>geocode_address\<close> returns.\<close>

record geo_dict =
  latitude :: real
  longitude :: real
  formatted_address :: pystr
  status :: pystr

definition geocode_address :: "geocoding_result api \<Rightarrow> nat \<Rightarrow> pystr \<Rightarrow> pystr \<Rightarrow> geo_dict" where
  "geocode_address api n addr cty =
     (case api n (addr @ py '', '' @ cty @ py '', Morocco'') of
        Raises \<Rightarrow>
          \<lparr> geo_dict.latitude = 0, geo_dict.longitude = 0,
            geo_dict.formatted_address = addr, geo_dict.status = py ''ERROR'' \<rparr>
      | Response data \<Rightarrow>
          if api_response.status data = py ''OK'' \<and> length (results data) > 0
          then (let r = hd (results data) in
                \<lparr> geo_dict.latitude = lat r, geo_dict.longitude = lng r,
                  geo_dict.formatted_address = geocoding_result.formatted_address r,
                  geo_dict.status = py ''OK'' \<rparr>)
          else \<lparr> geo_dict.latitude = 0, geo_dict.longitude = 0,
                 geo_dict.formatted_address = addr,
                 geo_dict.status = api_response.status data \<rparr>)"

record Pharmacy =
  id' :: pystr
  name :: pystr
  name_ar :: "pystr option"
  address :: pystr
  address_ar :: "pystr option"
  city :: pystr
  latitude :: real
  longitude :: real
  phone_number :: pystr
  email :: "pystr option"
  website :: "pystr option"
  opening_hours :: pystr
  is_24_hours :: bool
  has_parking :: bool
  is_guard_pharmacy :: bool
  rating :: real
  review_count :: int
  image_url :: "pystr option"
  services :: "pystr list"
  distance :: "real option"
  last_updated :: pystr
  geocoded :: bool
  geocode_status :: pystr

datatype py_error = ZeroDivisionError

text \<open>
  The body of the loop of \<open>geocode_pharmacies\<close> up to the \<open>append\<close> (lines 195--228),
  for the record at index \<open>i\<close>. \<open>now i\<close> is \<open>datetime.now().isoformat()\<close> at that
  moment.
\<close>

definition make_pharmacy ::
  "geocoding_result api \<Rightarrow> (nat \<Rightarrow> pystr) \<Rightarrow> nat \<Rightarrow> PharmacyRaw \<Rightarrow> Pharmacy" where
  "make_pharmacy api now i raw_pharmacy =
     (let pharmacy_id = py ''pharmacy_kenitra_'' @ fmt_04d (i + 1);
          geo_result = geocode_address api i (PharmacyRaw.address raw_pharmacy)
                         (PharmacyRaw.city raw_pharmacy)
      in \<lparr> id' = pharmacy_id,
           Pharmacy.name = PharmacyRaw.name raw_pharmacy,
           name_ar = None,
           Pharmacy.address = PharmacyRaw.address raw_pharmacy,
           address_ar = None,
           Pharmacy.city = PharmacyRaw.city raw_pharmacy,
           Pharmacy.latitude = geo_dict.latitude geo_result,
           Pharmacy.longitude = geo_dict.longitude geo_result,
           phone_number = PharmacyRaw.phone raw_pharmacy,
           email = None,
           website = None,
           opening_hours = py ''Lun-Ven: 09:00-19:00 | Sam: 09:00-13:00'',
           is_24_hours = False,
           has_parking = False,
           is_guard_pharmacy = False,
           rating = 0,
           review_count = 0,
           image_url = None,
           services = [],
           distance = None,
           last_updated = now i,
           Pharmacy.geocoded = (geo_dict.latitude geo_result \<noteq> 0),
           geocode_status = geo_dict.status geo_result \<rparr>)"

text \<open>
  The files a run writes, in the order written: the name and the list dumped.
\<close>

type_synonym 'a files = "(pystr \<times> 'a list) list"

definition checkpoint_name :: "nat \<Rightarrow> pystr" where
  "checkpoint_name n = py ''checkpoint_'' @ str_nat n @ py ''.json''"

text \<open>
  \<open>geocode_pharmacies\<close>: the loop over \<open>enumerate(pharmacies)\<close> from index \<open>i\<close>, with
  the list \<open>geocoded\<close> and the files written so far. \<open>(i + 1) % batch_size\<close> raises
  \<open>ZeroDivisionError\<close> when \<open>batch_size\<close> is \<open>0\<close>.
\<close>

fun geocode_loop ::
  "geocoding_result api \<Rightarrow> (nat \<Rightarrow> pystr) \<Rightarrow> int \<Rightarrow> nat \<Rightarrow> PharmacyRaw list \<Rightarrow>
   Pharmacy list \<times> Pharmacy files \<Rightarrow> py_error + Pharmacy list \<times> Pharmacy files" where
  "geocode_loop api now batch_size i [] st = Inr st"
| "geocode_loop api now batch_size i (raw_pharmacy # rest) (acc, written) =
     (let acc' = acc @ [make_pharmacy api now i raw_pharmacy] in
      if batch_size = 0 then Inl ZeroDivisionError
      else if (int i + 1) mod batch_size = 0
      then geocode_loop api now batch_size (i + 1) rest
             (acc', written @ [(checkpoint_name (i + 1), acc')])
      else geocode_loop api now batch_size (i + 1) rest (acc', written))"

definition geocode_pharmacies ::
  "geocoding_result api \<Rightarrow> (nat \<Rightarrow> pystr) \<Rightarrow> PharmacyRaw list \<Rightarrow> int \<Rightarrow>
   py_error + Pharmacy list \<times> Pharmacy files" where
  "geocode_pharmacies api now pharmacies batch_size =
     geocode_loop api now batch_size 0 pharmacies ([], [])"

section \<open>Code Emitter (pharmacy\_scraper.py)\<close>

text \<open>\<open>_escape_quotes\<close>: \<open>text.replace('"', '\\"').replace('\n', ' ').strip()\<close>.\<close>

definition escape_quotes :: "pystr \<Rightarrow> pystr" where
  "escape_quotes t = strip (replace1 newline [space] (replace1 dquote [backslash, dquote] t))"

text \<open>\<open>str(b).lower()\<close> of a boolean.\<close>

definition str_bool_lower :: "bool \<Rightarrow> pystr" where
  "str_bool_lower b = (if b then py ''true'' else py ''false'')"

text \<open>
  The entry of one pharmacy in \<open>_generate_pharmacy_entries\<close>, as the lines of its
  f-string. The text of a float (\<open>{pharmacy.latitude}\<close>) is Python's; it is the
  parameter \<open>repr\<close>.
\<close>

definition entry_lines :: "(real \<Rightarrow> pystr) \<Rightarrow> Pharmacy \<Rightarrow> pystr list" where
  \<open>entry_lines repr pharmacy =
     [ py ''        Pharmacy('',
       py ''            id = "'' @ id' pharmacy @ py ''",'',
       py ''            name = "'' @ escape_quotes (Pharmacy.name pharmacy) @ py ''",'',
       py ''            nameAr = null,'',
       py ''            address = "'' @ escape_quotes (Pharmacy.address pharmacy) @ py ''",'',
       py ''            addressAr = null,'',
       py ''            city = "'' @ Pharmacy.city pharmacy @ py ''",'',
       py ''            latitude = '' @ repr (Pharmacy.latitude pharmacy) @ py '','',
       py ''            longitude = '' @ repr (Pharmacy.longitude pharmacy) @ py '','',
       py ''            phoneNumber = "'' @ phone_number pharmacy @ py ''",'',
       py ''            email = null,'',
       py ''            website = null,'',
       py ''            openingHours = "'' @ opening_hours pharmacy @ py ''",'',
       py ''            is24Hours = '' @ str_bool_lower (is_24_hours pharmacy) @ py '','',
       py ''            hasParking = '' @ str_bool_lower (has_parking pharmacy) @ py '','',
       py ''            isGuardPharmacy = '' @ str_bool_lower (is_guard_pharmacy pharmacy) @ py '','',
       py ''            rating = '' @ repr (rating pharmacy) @ py '','',
       py ''            reviewCount = '' @ str_int (review_count pharmacy) @ py '','',
       py ''            imageUrl = null,'',
       py ''            services = emptyList(),'',
       py ''            distance = null,'',
       py ''            lastUpdated = dateFormat.parse("'' @ last_updated pharmacy @ py ''") ?: Date()'',
       py ''        )'' ]\<close>

text \<open>\<open>sep.join(parts)\<close>.\<close>

fun join :: "pystr \<Rightarrow> pystr list \<Rightarrow> pystr" where
  "join sep [] = []"
| "join sep [x] = x"
| "join sep (x # y # ys) = x @ sep @ join sep (y # ys)"

definition generate_pharmacy_entries :: "(real \<Rightarrow> pystr) \<Rightarrow> Pharmacy list \<Rightarrow> pystr" where
  "generate_pharmacy_entries repr pharmacies =
     join (py '','' @ [newline]) (map (\<lambda>pharmacy. join [newline] (entry_lines repr pharmacy)) pharmacies)"

text \<open>
  A text is safe between the double quotes of an emitted literal when it holds no raw
  newline and each of its double quotes stands right after a backslash. \<open>prev\<close> is
  the character before the text that is left.
\<close>

fun escaped_after :: "nat \<Rightarrow> pystr \<Rightarrow> bool" where
  "escaped_after prev [] = True"
| "escaped_after prev (c # cs) =
     (c \<noteq> newline \<and> (if c = dquote then prev = backslash else True) \<and> escaped_after c cs)"

definition quotes_escaped :: "pystr \<Rightarrow> bool" where
  "quotes_escaped t = escaped_after dquote t"

text \<open>
  The texts \<open>entry_lines\<close> puts between double quotes, in the order of the entry: id,
  name, address, city, phoneNumber, openingHours and lastUpdated.
\<close>

definition quoted_texts :: "Pharmacy \<Rightarrow> pystr list" where
  "quoted_texts pharmacy =
     [ id' pharmacy, escape_quotes (Pharmacy.name pharmacy),
       escape_quotes (Pharmacy.address pharmacy), Pharmacy.city pharmacy,
       phone_number pharmacy, opening_hours pharmacy, last_updated pharmacy ]"

section \<open>The quick driver (quick\_geocode.py), its resume variant (resume\_geocode.py) and final\_integrate.py\<close>

text \<open>A result of the Places text search: only its location is read by these scripts.\<close>

record places_result = location +
  formatted_address :: "pystr option"
  rating :: "real option"
  user_ratings_total :: "int option"
  place_id :: "pystr option"

text \<open>
  A record of \<open>pharmacies_raw.json\<close> (the keys of \<open>PharmacyRaw\<close>) with the three keys
  the drivers add; \<open>None\<close> is a key that is absent.
\<close>

record QuickDict = PharmacyRaw +
  latitude :: "real option"
  longitude :: "real option"
  geocoded :: "bool option"

record 'a run =
  out :: "'a list"
  success :: nat
  written :: "'a files"

definition quick_checkpoint_name :: "nat \<Rightarrow> pystr" where
  "quick_checkpoint_name n = py ''quick_checkpoint_'' @ str_nat n @ py ''.json''"

definition kenitra_center :: "QuickDict \<Rightarrow> QuickDict" where
  "kenitra_center pharm =
     pharm\<lparr> QuickDict.latitude := Some 34.261, QuickDict.longitude := Some (- 6.587),
            QuickDict.geocoded := Some False \<rparr>"

text \<open>
  One turn of the loop of quick\_geocode.py (lines 26--61), for the \<open>i\<close>-th record
  (\<open>i\<close> from 1). The request is the only statement of the \<open>try\<close> block that can raise
  before the \<open>append\<close>; writing a file is taken not to fail.
\<close>

definition quick_step :: "places_result api \<Rightarrow> nat \<times> QuickDict \<Rightarrow> QuickDict run \<Rightarrow> QuickDict run" where
  "quick_step api ip st =
     (case ip of (i, pharm) \<Rightarrow>
        (case api i (PharmacyRaw.name pharm @ py '', Kenitra, Morocco'') of
           Raises \<Rightarrow> st\<lparr> out := out st @ [kenitra_center pharm] \<rparr>
         | Response data \<Rightarrow>
             (let found = (api_response.status data = py ''OK'' \<and> results data \<noteq> []);
                  pharm' = (if found
                            then (let loc = hd (results data) in
                                  pharm\<lparr> QuickDict.latitude := Some (lat loc),
                                         QuickDict.longitude := Some (lng loc),
                                         QuickDict.geocoded := Some True \<rparr>)
                            else kenitra_center pharm);
                  out' = out st @ [pharm']
              in \<lparr> out = out',
                   success = (if found then success st + 1 else success st),
                   written = (if i mod 50 = 0
                              then written st @ [(quick_checkpoint_name i, out')]
                              else written st) \<rparr>)))"

definition quick_geocode :: "places_result api \<Rightarrow> QuickDict list \<Rightarrow> QuickDict run" where
  "quick_geocode api raw_pharmacies =
     fold (quick_step api) (zip [1 ..< length raw_pharmacies + 1] raw_pharmacies)
       \<lparr> out = [], success = 0, written = [] \<rparr>"

text \<open>
  resume\_geocode.py: one turn of the loop of lines 24--45 for index \<open>i\<close>. The list is
  changed in place, \<open>out\<close> is the list \<open>pharmacies\<close>. A body with status \<open>OK\<close> and no
  result raises \<open>IndexError\<close> at \<open>data['results'][0]\<close>; \<open>except: pass\<close> then skips the
  rest of the turn, the checkpoint included.
\<close>

definition resume_step :: "places_result api \<Rightarrow> nat \<Rightarrow> QuickDict run \<Rightarrow> QuickDict run" where
  "resume_step api i st =
     (let p = out st ! i in
      case api i (PharmacyRaw.name p @ py '', Kenitra, Morocco'') of
        Raises \<Rightarrow> st
      | Response data \<Rightarrow>
          if api_response.status data = py ''OK'' \<and> results data = [] then st
          else
            (let found = (api_response.status data = py ''OK'');
                 out' = (if found
                         then (let loc = hd (results data) in
                               (out st)[i := p\<lparr> QuickDict.latitude := Some (lat loc),
                                                QuickDict.longitude := Some (lng loc),
                                                QuickDict.geocoded := Some True \<rparr>])
                         else out st)
             in \<lparr> out = out',
                  success = (if found then success st + 1 else success st),
                  written = (if (i + 1) mod 50 = 0
                             then written st @ [(quick_checkpoint_name (i + 1), out')]
                             else written st) \<rparr>))"

definition is_geocoded :: "QuickDict \<Rightarrow> bool" where
  "is_geocoded p = (case QuickDict.geocoded p of None \<Rightarrow> False | Some b \<Rightarrow> b)"

definition resume_geocode :: "places_result api \<Rightarrow> QuickDict list \<Rightarrow> QuickDict list \<Rightarrow> QuickDict run" where
  "resume_geocode api raw_pharmacies completed =
     (let pharmacies = completed @ drop 400 raw_pharmacies in
      fold (resume_step api) [400 ..< length pharmacies]
        \<lparr> out = pharmacies,
          success = length (filter is_geocoded (take 400 pharmacies)),
          written = [] \<rparr>)"

text \<open>
  final\_integrate.py: the count of line 35 and the values of lines 61, 62 and 65 that
  the entry of a record is written from.
\<close>

definition integrate_success :: "QuickDict list \<Rightarrow> nat" where
  "integrate_success pharmacies =
     length (filter (\<lambda>p. case QuickDict.geocoded p of None \<Rightarrow> False | Some b \<Rightarrow> b) pharmacies)"

definition integrate_lat :: "QuickDict \<Rightarrow> real" where
  "integrate_lat p = (case QuickDict.latitude p of None \<Rightarrow> 34.261 | Some v \<Rightarrow> v)"

definition integrate_lon :: "QuickDict \<Rightarrow> real" where
  "integrate_lon p = (case QuickDict.longitude p of None \<Rightarrow> - 6.587 | Some v \<Rightarrow> v)"

definition integrate_geocoded :: "QuickDict \<Rightarrow> pystr" where
  "integrate_geocoded p =
     str_bool_lower (case QuickDict.geocoded p of None \<Rightarrow> True | Some b \<Rightarrow> b)"

section \<open>The Rabat driver (geocode\_rabat.py)\<close>




section \<open>The trial driver (test\_places\_api.py)\<close>

datatype jval = JNone | JBool bool | JInt int | JFloat real | JStr pystr | JList "jval list"

text \<open>A dictionary literal: its keys and values in the order written.\<close>

type_synonym pydict = "(string \<times> jval) list"

definition found_dict :: "(nat \<Rightarrow> pystr) \<Rightarrow> nat \<Rightarrow> PharmacyRaw \<Rightarrow> places_result \<Rightarrow> pydict" where
  "found_dict now i pharmacy_raw r =
     [ (''id'', JStr (py ''pharmacy_kenitra_'' @ fmt_04d i)),
       (''name'', JStr (PharmacyRaw.name pharmacy_raw)),
       (''name_ar'', JNone),
       (''address'', JStr (case places_result.formatted_address r of
                            None \<Rightarrow> PharmacyRaw.address pharmacy_raw | Some a \<Rightarrow> a)),
       (''address_ar'', JNone),
       (''city'', JStr (PharmacyRaw.city pharmacy_raw)),
       (''latitude'', JFloat (lat r)),
       (''longitude'', JFloat (lng r)),
       (''phone_number'', JStr (PharmacyRaw.phone pharmacy_raw)),
       (''email'', JNone),
       (''website'', JNone),
       (''opening_hours'', JStr (py ''Lun-Ven: 09:00-19:00 | Sam: 09:00-13:00'')),
       (''is_24_hours'', JBool False),
       (''has_parking'', JBool False),
       (''is_guard_pharmacy'', JBool False),
       (''rating'', JFloat (case places_result.rating r of None \<Rightarrow> 0 | Some x \<Rightarrow> x)),
       (''review_count'', JInt (case user_ratings_total r of None \<Rightarrow> 0 | Some n \<Rightarrow> n)),
       (''image_url'', JNone),
       (''services'', JList []),
       (''distance'', JNone),
       (''last_updated'', JStr (now i)),
       (''geocoded'', JBool True),
       (''geocode_status'', JStr (py ''OK'')),
       (''place_id'', JStr (case place_id r of None \<Rightarrow> [] | Some x \<Rightarrow> x)) ]"

definition not_found_dict :: "nat \<Rightarrow> PharmacyRaw \<Rightarrow> pystr \<Rightarrow> pydict" where
  "not_found_dict i pharmacy_raw st =
     [ (''id'', JStr (py ''pharmacy_kenitra_'' @ fmt_04d i)),
       (''name'', JStr (PharmacyRaw.name pharmacy_raw)),
       (''address'', JStr (PharmacyRaw.address pharmacy_raw)),
       (''city'', JStr (PharmacyRaw.city pharmacy_raw)),
       (''latitude'', JFloat 0),
       (''longitude'', JFloat 0),
       (''phone_number'', JStr (PharmacyRaw.phone pharmacy_raw)),
       (''geocoded'', JBool False),
       (''geocode_status'', JStr st) ]"

text \<open>
  One turn of the loop of lines 23--93: the \<open>except\<close> branch (lines 90--91) only prints.
\<close>

definition places_step ::
  "places_result api \<Rightarrow> (nat \<Rightarrow> pystr) \<Rightarrow> nat \<times> PharmacyRaw \<Rightarrow> pydict list \<Rightarrow> pydict list" where
  "places_step api now ip geocoded_pharmacies =
     (case ip of (i, pharmacy_raw) \<Rightarrow>
        (case api i (PharmacyRaw.name pharmacy_raw @ py '', '' @ PharmacyRaw.city pharmacy_raw @
                     py '', Morocco'') of
           Raises \<Rightarrow> geocoded_pharmacies
         | Response data \<Rightarrow>
             if api_response.status data = py ''OK'' \<and> length (results data) > 0
             then geocoded_pharmacies @ [found_dict now i pharmacy_raw (hd (results data))]
             else geocoded_pharmacies @
                    [not_found_dict i pharmacy_raw (api_response.status data)]))"

definition test_places_api ::
  "places_result api \<Rightarrow> (nat \<Rightarrow> pystr) \<Rightarrow> PharmacyRaw list \<Rightarrow> pydict list" where
  "test_places_api api now raw_pharmacies =
     (let first10 = take 10 raw_pharmacies in
      fold (places_step api now) (zip [1 ..< length first10 + 1] first10) [])"

section \<open>Invariants of the driver loops\<close>

text \<open>The record the quick driver appends for an input and its index.\<close>

definition quick_record :: "places_result api \<Rightarrow> nat \<times> QuickDict \<Rightarrow> QuickDict" where
  "quick_record api ip = last (out (quick_step api ip \<lparr> out = [], success = 0, written = [] \<rparr>))"

text \<open>
  Every file written so far is named after the length of its list, and its list is a
  prefix of the output so far.
\<close>

definition quick_snapshots_ok :: "QuickDict run \<Rightarrow> bool" where
  "quick_snapshots_ok st \<longleftrightarrow>
     list_all (\<lambda>(f, s). f = quick_checkpoint_name (length s) \<and> prefix s (out st)) (written st)"


text \<open>The keys of a record that come from the scraper.\<close>

definition raw_fields :: "QuickDict \<Rightarrow> pystr \<times> pystr \<times> pystr \<times> pystr \<times> int \<times> pystr" where
  "raw_fields p =
     (PharmacyRaw.name p, PharmacyRaw.address p, PharmacyRaw.city p, PharmacyRaw.phone p,
      page_number p, source_url p)"

section \<open>Concrete inputs\<close>

text \<open>The ASCII digits, a digit class to run the parser with.\<close>

definition ascii_digit :: "nat \<Rightarrow> bool" where
  "ascii_digit c \<longleftrightarrow> 48 \<le> c \<and> c \<le> 57"

definition listing_example :: listing where
  "listing_example =
     \<lparr> link_href = Some (py ''/pharmacies/pharmacie-al-amal''),
       name_text = Some (py ''Pharmacie Al Amal''),
       city_text = None,
       phone_text = None \<rparr>"




definition raw_example :: PharmacyRaw where
  "raw_example =
     \<lparr> PharmacyRaw.name = py ''Pharmacie Al Amal'',
       PharmacyRaw.address = py ''Pharmacie Al Amal, Kenitra, Morocco'',
       PharmacyRaw.city = py ''Kenitra'',
       PharmacyRaw.phone = py ''05 37 37 12 34'',
       page_number = 1,
       source_url = py ''https://www.annuaire-gratuit.ma/'' \<rparr>"

definition clock_example :: "nat \<Rightarrow> pystr" where
  "clock_example i = py ''2025-01-01T00:00:00''"

definition geocoding_ok :: "geocoding_result list \<Rightarrow> geocoding_result api" where
  "geocoding_ok rs n q = Response \<lparr> api_response.status = py ''OK'', results = rs \<rparr>"


definition geocoding_raises :: "geocoding_result api" where
  "geocoding_raises n q = Raises"

definition kenitra_place :: geocoding_result where
  "kenitra_place = \<lparr> lat = 34.26, lng = - 6.58,
     geocoding_result.formatted_address = py ''Avenue Mohamed V, Kenitra'' \<rparr>"

definition equator_place :: geocoding_result where
  "equator_place = \<lparr> lat = 0, lng = 9.45,
     geocoding_result.formatted_address = py ''Equator'' \<rparr>"

definition places_raises :: "places_result api" where
  "places_raises n q = Raises"

definition places_status :: "pystr \<Rightarrow> places_result api" where
  "places_status s n q = Response \<lparr> api_response.status = s, results = [] \<rparr>"

definition quick_example :: QuickDict where
  "quick_example =
     \<lparr> PharmacyRaw.name = py ''Pharmacie Al Amal'',
       PharmacyRaw.address = py ''Pharmacie Al Amal, Kenitra, Morocco'',
       PharmacyRaw.city = py ''Kenitra'',
       PharmacyRaw.phone = py ''05 37 37 12 34'',
       page_number = 1,
       source_url = py ''https://www.annuaire-gratuit.ma/'',
       QuickDict.latitude = None, QuickDict.longitude = None, QuickDict.geocoded = None \<rparr>"


definition places_ok :: "places_result list \<Rightarrow> places_result api" where
  "places_ok rs n q = Response \<lparr> api_response.status = py ''OK'', results = rs \<rparr>"

definition kenitra_found :: places_result where
  "kenitra_found =
     \<lparr> lat = 34.26, lng = - 6.58, places_result.formatted_address = None,
       places_result.rating = None, user_ratings_total = None, place_id = None \<rparr>"

definition quoted_city_listing :: listing where
  \<open>quoted_city_listing =
     \<lparr> link_href = Some (py ''/pharmacies/pharmacie-centrale''),
       name_text = Some (py ''Pharmacie Centrale''),
       city_text = Some (py ''Sidi "Kacem"''),
       phone_text = None \<rparr>\<close>

definition raw_quoted_city :: PharmacyRaw where
  \<open>raw_quoted_city =
     \<lparr> PharmacyRaw.name = py ''Pharmacie Centrale'',
       PharmacyRaw.address = py ''Pharmacie Centrale, Sidi "Kacem", Morocco'',
       PharmacyRaw.city = py ''Sidi "Kacem"'',
       PharmacyRaw.phone = [],
       page_number = 1,
       source_url = py ''u'' \<rparr>\<close>

section \<open>Strings\<close>

lemma py_eq_iff: "py a = py b \<longleftrightarrow> a = b"
  unfolding py_def by (rule inj_map_eq_map) (simp add: inj_on_def)

lemma py_append: "py (a @ b) = py a @ py b"
  by (simp add: py_def)

lemma contains_sublist: "contains sub s \<longleftrightarrow> sublist sub s"
  by (induction s) (auto simp: sublist_Cons_right)

lemma format_phone_10:
  assumes "length d = 10"
  shows "format_phone d =
    [d ! 0, d ! 1, space, d ! 2, d ! 3, space, d ! 4, d ! 5, space, d ! 6, d ! 7, space, d ! 8, d ! 9]"
proof -
  obtain a0 a1 a2 a3 a4 a5 a6 a7 a8 a9 where d: "d = [a0, a1, a2, a3, a4, a5, a6, a7, a8, a9]"
    using assms by (auto simp: length_Suc_conv eval_nat_numeral)
  show ?thesis by (simp add: d format_phone_def slice_def)
qed

lemma filter_format_phone:
  assumes "\<not> isdigit space" "\<forall>c \<in> set d. isdigit c"
  shows "filter isdigit (format_phone d) = d"
proof (cases "length d = 10")
  case True
  then obtain a0 a1 a2 a3 a4 a5 a6 a7 a8 a9 where d: "d = [a0, a1, a2, a3, a4, a5, a6, a7, a8, a9]"
    by (auto simp: length_Suc_conv eval_nat_numeral)
  show ?thesis using assms by (simp add: d format_phone_def slice_def)
next
  case False
  then show ?thesis using assms by (simp add: format_phone_def)
qed

section \<open>The Listing Parser\<close>

text \<open>
  Claim C5. The phone of a listing: every character outside the digit class is removed;
  when exactly ten digits remain the result is these digits as five groups of two
  separated by single spaces (fourteen characters), and for any other count it is the
  digit string itself; it differs from the digit string exactly when ten digits remain;
  a listing with no phone element has the empty phone.
\<close>

theorem phone_normalization:
  "extract_phone isdigit None = [] \<and>
   sub_non_digits isdigit t = filter isdigit t \<and>
   (length (filter isdigit t) = 10 \<longrightarrow>
      extract_phone isdigit (Some t) =
        (let d = filter isdigit t in
         [d ! 0, d ! 1, space, d ! 2, d ! 3, space, d ! 4, d ! 5, space,
          d ! 6, d ! 7, space, d ! 8, d ! 9]) \<and>
      length (extract_phone isdigit (Some t)) = 14) \<and>
   (length (filter isdigit t) \<noteq> 10 \<longrightarrow> extract_phone isdigit (Some t) = filter isdigit t) \<and>
   (extract_phone isdigit (Some t) \<noteq> filter isdigit t \<longleftrightarrow> length (filter isdigit t) = 10) \<and>
   (\<not> isdigit space \<longrightarrow> filter isdigit (extract_phone isdigit (Some t)) = filter isdigit t)"
proof -
  let ?d = "filter isdigit t"
  have none: "extract_phone isdigit None = []"
    by (simp add: extract_phone_def)
  have some: "extract_phone isdigit (Some t) = format_phone ?d"
    by (simp add: extract_phone_def sub_non_digits_def)
  have ten: "length ?d = 10 \<Longrightarrow> format_phone ?d =
      [?d ! 0, ?d ! 1, space, ?d ! 2, ?d ! 3, space, ?d ! 4, ?d ! 5, space,
       ?d ! 6, ?d ! 7, space, ?d ! 8, ?d ! 9]"
    by (rule format_phone_10)
  have other: "length ?d \<noteq> 10 \<Longrightarrow> format_phone ?d = ?d"
    by (simp add: format_phone_def)
  have len: "length ?d = 10 \<Longrightarrow> length (format_phone ?d) = 14"
    using ten by simp
  have differ: "format_phone ?d \<noteq> ?d \<longleftrightarrow> length ?d = 10"
  proof
    assume "format_phone ?d \<noteq> ?d" then show "length ?d = 10" using other by blast
  next
    assume h: "length ?d = 10"
    then have "length (format_phone ?d) = 14" by (rule len)
    with h show "format_phone ?d \<noteq> ?d" by auto
  qed
  have digits: "\<not> isdigit space \<Longrightarrow> filter isdigit (format_phone ?d) = ?d"
    by (rule filter_format_phone) simp_all
  show ?thesis
    unfolding some using none ten other len differ digits
    by (simp add: sub_non_digits_def Let_def)
qed

theorem phone_normalization_witness:
  "length (filter ascii_digit (py ''05.37-37 12 34'')) = 10 \<and>
   extract_phone ascii_digit (Some (py ''05.37-37 12 34'')) = py ''05 37 37 12 34'' \<and>
   length (extract_phone ascii_digit (Some (py ''05.37-37 12 34''))) = 14 \<and>
   length (filter ascii_digit (py ''+212 537371234'')) \<noteq> 10 \<and>
   extract_phone ascii_digit (Some (py ''+212 537371234'')) = py ''212537371234'' \<and>
   \<not> ascii_digit space"
  using phone_normalization [of ascii_digit "py ''05.37-37 12 34''"]
        phone_normalization [of ascii_digit "py ''+212 537371234''"]
  by (simp add: py_def ascii_digit_def space_def Let_def)

lemma strip_kenitra: "extract_city None = kenitra"
  by (simp add: extract_city_def kenitra_def replace1_def strip_def isspace_def py_def
      newline_def carriage_return_def)

lemma scrape_listings_acc:
  "scrape_listings isdigit page url ls acc = acc @ List.map_filter (parse_listing isdigit page url) ls"
  by (induction ls arbitrary: acc) (auto split: option.splits)

lemma rabat_listings_acc:
  "rabat_listings ls acc = acc @ List.map_filter rabat_listing ls"
  by (induction ls arbitrary: acc) (auto split: option.splits)

text \<open>
  Claim C8. A listing yields a record exactly when its link holds \<open>/pharmacies/\<close> and
  it has a name element; the record carries that name, the fallback locality when the
  locality element is missing and the empty phone when the phone element is missing; the
  records of a page are those of its listings, in order. The same holds for the Rabat
  scraper, whose locality is always the fixed string.
\<close>

theorem parser_contract:
  "(parse_listing isdigit page url l \<noteq> None \<longleftrightarrow>
      (\<exists>href. link_href l = Some href \<and> sublist (py ''/pharmacies/'') href) \<and> name_text l \<noteq> None) \<and>
   (\<forall>r. parse_listing isdigit page url l = Some r \<longrightarrow>
      name_text l = Some (PharmacyRaw.name r) \<and>
      (city_text l = None \<longrightarrow> PharmacyRaw.city r = kenitra) \<and>
      (phone_text l = None \<longrightarrow> PharmacyRaw.phone r = [])) \<and>
   scrape_listings isdigit page url ls [] = List.map_filter (parse_listing isdigit page url) ls \<and>
   (rabat_listing l \<noteq> None \<longleftrightarrow>
      (\<exists>href. link_href l = Some href \<and> sublist (py ''/pharmacies/'') href) \<and> name_text l \<noteq> None) \<and>
   (\<forall>d. rabat_listing l = Some d \<longrightarrow>
      name_text l = Some (RabatDict.name d) \<and> RabatDict.city d = py ''Rabat'' \<and>
      (phone_text l = None \<longrightarrow> RabatDict.phone d = [])) \<and>
   rabat_listings ls [] = List.map_filter rabat_listing ls"
proof -
  have a: "parse_listing isdigit page url l \<noteq> None \<longleftrightarrow>
      (\<exists>href. link_href l = Some href \<and> sublist (py ''/pharmacies/'') href) \<and> name_text l \<noteq> None"
    by (auto simp: parse_listing_def contains_sublist Let_def split: option.splits)
  have b: "\<forall>r. parse_listing isdigit page url l = Some r \<longrightarrow>
      name_text l = Some (PharmacyRaw.name r) \<and>
      (city_text l = None \<longrightarrow> PharmacyRaw.city r = kenitra) \<and>
      (phone_text l = None \<longrightarrow> PharmacyRaw.phone r = [])"
    by (auto simp: parse_listing_def Let_def strip_kenitra extract_phone_def
        split: option.splits if_splits)
  have c: "rabat_listing l \<noteq> None \<longleftrightarrow>
      (\<exists>href. link_href l = Some href \<and> sublist (py ''/pharmacies/'') href) \<and> name_text l \<noteq> None"
    by (auto simp: rabat_listing_def contains_sublist split: option.splits)
  have d: "\<forall>d. rabat_listing l = Some d \<longrightarrow>
      name_text l = Some (RabatDict.name d) \<and> RabatDict.city d = py ''Rabat'' \<and>
      (phone_text l = None \<longrightarrow> RabatDict.phone d = [])"
    by (auto simp: rabat_listing_def split: option.splits if_splits)
  show ?thesis
    using a b c d by (simp add: scrape_listings_acc rabat_listings_acc)
qed

theorem parser_contract_witness:
  "parse_listing ascii_digit 1 (py ''u'') listing_example =
     Some \<lparr> PharmacyRaw.name = py ''Pharmacie Al Amal'',
            PharmacyRaw.address = py ''Pharmacie Al Amal, '' @ kenitra @ py '', Morocco'',
            PharmacyRaw.city = kenitra, PharmacyRaw.phone = [],
            page_number = 1, source_url = py ''u'' \<rparr> \<and>
   city_text listing_example = None \<and> phone_text listing_example = None \<and>
   rabat_listing listing_example =
     Some \<lparr> RabatDict.name = py ''Pharmacie Al Amal'', RabatDict.phone = [],
            RabatDict.address = py ''Pharmacie Al Amal, Rabat, Morocco'',
            RabatDict.city = py ''Rabat'', RabatDict.geocoded = False,
            RabatDict.latitude = 0, RabatDict.longitude = 0 \<rparr> \<and>
   parse_listing ascii_digit 1 (py ''u'') (listing_example\<lparr> name_text := None \<rparr>) = None \<and>
   parse_listing ascii_digit 1 (py ''u'')
     (listing_example\<lparr> link_href := Some (py ''/medecins/dr-x'') \<rparr>) = None"
  using parser_contract [of ascii_digit 1 "py ''u''" listing_example "[listing_example]"]
    parser_contract [of ascii_digit 1 "py ''u''" "listing_example\<lparr> name_text := None \<rparr>" "[]"]
    parser_contract [of ascii_digit 1 "py ''u''"
      "listing_example\<lparr> link_href := Some (py ''/medecins/dr-x'') \<rparr>" "[]"]
  by (simp add: listing_example_def parse_listing_def rabat_listing_def strip_kenitra
      extract_phone_def py_def)

section \<open>The Pagination Driver\<close>









section \<open>The Geocoder\<close>



section \<open>The Geocoding Driver\<close>

lemma make_pharmacy_geocoded:
  "Pharmacy.geocoded (make_pharmacy api now i raw) \<longleftrightarrow>
     Pharmacy.latitude (make_pharmacy api now i raw) \<noteq> 0"
  by (simp add: make_pharmacy_def Let_def)

lemma make_pharmacy_geocoded_ok:
  assumes "Pharmacy.geocoded (make_pharmacy api now i raw)"
  shows "geocode_status (make_pharmacy api now i raw) = py ''OK'' \<and>
         (Pharmacy.latitude (make_pharmacy api now i raw),
          Pharmacy.longitude (make_pharmacy api now i raw)) \<noteq> (0, 0)"
  using assms
  by (auto simp: make_pharmacy_def geocode_address_def Let_def split: api_outcome.splits if_splits)

lemma geocode_loop_out:
  assumes "batch_size \<noteq> 0"
  shows "\<exists>w. geocode_loop api now batch_size i raws (acc, w0) =
           Inr (acc @ map (\<lambda>(k, raw). make_pharmacy api now k raw) (zip [i ..< i + length raws] raws), w)"
proof (induction raws arbitrary: i acc w0)
  case Nil
  then show ?case by simp
next
  case (Cons raw rest)
  have up: "[i ..< Suc (i + length rest)] = i # [Suc i ..< Suc (i + length rest)]"
    by (rule upt_conv_Cons) simp
  show ?case
  proof (cases "(int i + 1) mod batch_size = 0")
    case True
    from Cons.IH [of "i + 1" "acc @ [make_pharmacy api now i raw]"
        "w0 @ [(checkpoint_name (i + 1), acc @ [make_pharmacy api now i raw])]"]
    show ?thesis using assms True by (simp add: Let_def up del: upt_Suc)
  next
    case False
    from Cons.IH [of "i + 1" "acc @ [make_pharmacy api now i raw]" w0]
    show ?thesis using assms False by (simp add: Let_def up del: upt_Suc)
  qed
qed

text \<open>
  Claim C1, evaluated where it fails. \<open>geocode_pharmacies\<close> sets \<open>geocoded\<close> from the
  latitude alone: for a found place on the equator the record has status \<open>OK\<close> and the
  coordinates \<open>(0, 9.45)\<close>, which are not the sentinel \<open>(0, 0)\<close>, and yet
  \<open>geocoded\<close> is false. final\_integrate.py reads a missing \<open>geocoded\<close> key as true:
  a record the resume driver leaves without coordinates is emitted with the fallback
  coordinates and \<open>geocoded = true\<close>, while line 35 of the same script counts it as not
  geocoded.
\<close>

theorem geocoded_flag_false_for_found_place:
  "geocode_pharmacies (geocoding_ok [equator_place]) clock_example [raw_example] 50 =
     Inr ([make_pharmacy (geocoding_ok [equator_place]) clock_example 0 raw_example], []) \<and>
   geocode_status (make_pharmacy (geocoding_ok [equator_place]) clock_example 0 raw_example) = py ''OK'' \<and>
   Pharmacy.latitude (make_pharmacy (geocoding_ok [equator_place]) clock_example 0 raw_example) = 0 \<and>
   Pharmacy.longitude (make_pharmacy (geocoding_ok [equator_place]) clock_example 0 raw_example) = 9.45 \<and>
   Pharmacy.geocoded (make_pharmacy (geocoding_ok [equator_place]) clock_example 0 raw_example) = False \<and>
   out (resume_step (places_status (py ''ZERO_RESULTS'')) 0
          \<lparr> out = [quick_example], success = 0, written = [] \<rparr>) = [quick_example] \<and>
   integrate_geocoded quick_example = py ''true'' \<and>
   integrate_lat quick_example = 34.261 \<and>
   integrate_lon quick_example = - 6.587 \<and>
   integrate_success [quick_example] = 0"
  by (simp add: geocode_pharmacies_def make_pharmacy_def geocode_address_def geocoding_ok_def
      equator_place_def Let_def resume_step_def places_status_def quick_example_def
      integrate_geocoded_def integrate_lat_def integrate_lon_def integrate_success_def
      str_bool_lower_def py_eq_iff)

text \<open>
  Claim C2, evaluated where it fails. When the request for a record raises, the loop of
  test\_places\_api.py appends nothing for it, so the record is missing from the output;
  the loop of quick\_geocode.py appends it.
\<close>

theorem trial_driver_drops_record:
  "test_places_api places_raises clock_example [raw_example] = [] \<and>
   length (out (quick_geocode places_raises [quick_example])) = 1"
  by (simp add: test_places_api_def places_step_def places_raises_def quick_geocode_def
      quick_step_def)

section \<open>Checkpoints\<close>

lemma quick_step_out:
  "out (quick_step api (i, pharm) st) = out st @ [quick_record api (i, pharm)]"
  by (simp add: quick_step_def quick_record_def Let_def split: api_outcome.splits)

lemma quick_step_written:
  "written (quick_step api (i, pharm) st) = written st \<or>
   written (quick_step api (i, pharm) st) =
     written st @ [(quick_checkpoint_name i, out st @ [quick_record api (i, pharm)])]"
  by (simp add: quick_step_def quick_record_def Let_def split: api_outcome.splits)

lemma quick_step_inv:
  assumes "quick_snapshots_ok st" "length (out st) + 1 = i"
  shows "quick_snapshots_ok (quick_step api (i, pharm) st)"
proof -
  have old: "list_all (\<lambda>(f, s). f = quick_checkpoint_name (length s) \<and>
               prefix s (out st @ [quick_record api (i, pharm)])) (written st)"
    using assms(1) unfolding quick_snapshots_ok_def list_all_iff by (auto intro: prefix_prefix)
  from quick_step_written [of api i pharm st] show ?thesis
  proof
    assume "written (quick_step api (i, pharm) st) = written st"
    then show ?thesis using old by (simp add: quick_snapshots_ok_def quick_step_out)
  next
    assume "written (quick_step api (i, pharm) st) =
      written st @ [(quick_checkpoint_name i, out st @ [quick_record api (i, pharm)])]"
    then show ?thesis using old assms(2) by (auto simp: quick_snapshots_ok_def quick_step_out)
  qed
qed

lemma quick_fold:
  assumes "quick_snapshots_ok st" "length (out st) + 1 = i"
  shows "quick_snapshots_ok (fold (quick_step api) (zip [i ..< i + length xs] xs) st) \<and>
         out (fold (quick_step api) (zip [i ..< i + length xs] xs) st) =
           out st @ map (quick_record api) (zip [i ..< i + length xs] xs)"
  using assms
proof (induction xs arbitrary: i st)
  case Nil
  then show ?case by simp
next
  case (Cons x xs)
  have up: "[i ..< Suc (i + length xs)] = i # [Suc i ..< Suc (i + length xs)]"
    by (rule upt_conv_Cons) simp
  have inv: "quick_snapshots_ok (quick_step api (i, x) st)"
    using Cons.prems by (rule quick_step_inv)
  have len: "length (out (quick_step api (i, x) st)) + 1 = Suc i"
    using Cons.prems(2) by (simp add: quick_step_out)
  from Cons.IH [OF inv len] show ?case
    by (simp add: up quick_step_out del: upt_Suc)
qed

lemma quick_geocode_fold:
  "quick_snapshots_ok (quick_geocode api raws) \<and>
   out (quick_geocode api raws) = map (quick_record api) (zip [1 ..< length raws + 1] raws)"
proof -
  let ?st = "\<lparr> out = [], success = 0, written = [] \<rparr> :: QuickDict run"
  have init: "quick_snapshots_ok ?st"
    by (simp add: quick_snapshots_ok_def)
  have len: "length (out ?st) + 1 = 1"
    by simp
  from quick_fold [OF init len, of api raws] show ?thesis
    by (simp add: quick_geocode_def del: upt_Suc)
qed





















section \<open>The resume driver\<close>

lemma resume_step_cases:
  "resume_step api i st = st \<or>
   (\<exists>la lo. resume_step api i st =
      \<lparr> out = (out st)[i := (out st ! i)\<lparr> QuickDict.latitude := Some la,
                                          QuickDict.longitude := Some lo,
                                          QuickDict.geocoded := Some True \<rparr>],
        success = success st + 1,
        written = (if (i + 1) mod 50 = 0
                   then written st @ [(quick_checkpoint_name (i + 1),
                          (out st)[i := (out st ! i)\<lparr> QuickDict.latitude := Some la,
                                                      QuickDict.longitude := Some lo,
                                                      QuickDict.geocoded := Some True \<rparr>])]
                   else written st) \<rparr>) \<or>
   resume_step api i st =
      \<lparr> out = out st, success = success st,
        written = (if (i + 1) mod 50 = 0
                   then written st @ [(quick_checkpoint_name (i + 1), out st)]
                   else written st) \<rparr>"
  by (auto simp: resume_step_def Let_def split: api_outcome.splits)

lemma map_raw_fields_update:
  "map raw_fields (xs[i := (xs ! i)\<lparr> QuickDict.latitude := la, QuickDict.longitude := lo,
                                    QuickDict.geocoded := g \<rparr>]) = map raw_fields xs"
proof -
  let ?p = "(xs ! i)\<lparr> QuickDict.latitude := la, QuickDict.longitude := lo, QuickDict.geocoded := g \<rparr>"
  have same: "raw_fields ?p = raw_fields (xs ! i)"
    by (simp add: raw_fields_def)
  have "map raw_fields (xs[i := ?p]) = (map raw_fields xs)[i := raw_fields (xs ! i)]"
    by (simp only: map_update same)
  also have "\<dots> = map raw_fields xs"
  proof (cases "i < length xs")
    case True
    then have "raw_fields (xs ! i) = map raw_fields xs ! i" by simp
    then show ?thesis by (simp only: list_update_id)
  next
    case False
    then have "length (map raw_fields xs) \<le> i" by simp
    then show ?thesis by (rule list_update_beyond)
  qed
  finally show ?thesis .
qed

lemma resume_step_frame:
  assumes "400 \<le> i"
  shows "length (out (resume_step api i st)) = length (out st) \<and>
         take 400 (out (resume_step api i st)) = take 400 (out st) \<and>
         map raw_fields (out (resume_step api i st)) = map raw_fields (out st)"
  using resume_step_cases [of api i st] assms
  by (elim disjE exE) (simp_all add: map_raw_fields_update)

lemma resume_fold_frame:
  assumes "\<forall>i \<in> set idxs. 400 \<le> i"
  shows "length (out (fold (resume_step api) idxs st)) = length (out st) \<and>
         take 400 (out (fold (resume_step api) idxs st)) = take 400 (out st) \<and>
         map raw_fields (out (fold (resume_step api) idxs st)) = map raw_fields (out st)"
  using assms
proof (induction idxs arbitrary: st)
  case Nil
  then show ?case by simp
next
  case (Cons i idxs)
  from Cons.prems have i: "400 \<le> i" and rest: "\<forall>i \<in> set idxs. 400 \<le> i"
    by simp_all
  from Cons.IH [OF rest, of "resume_step api i st"] resume_step_frame [OF i, of api st]
  show ?case by simp
qed

text \<open>
  Claim C10. resume\_geocode.py starts from the records of the checkpoint followed by
  the raw records from index 400 on. Its output has the same length, and its first 400
  records are those of that list: the checkpoint itself when the checkpoint holds 400
  records. A record of the output differs from the record it started as only at an
  index of 400 or more, and there only in \<open>latitude\<close>, \<open>longitude\<close> and \<open>geocoded\<close>:
  the keys that come from the scraper are the same for every record.
\<close>

theorem resume_keeps_completed_records:
  "length (out (resume_geocode api raws completed)) = length (completed @ drop 400 raws) \<and>
   take 400 (out (resume_geocode api raws completed)) = take 400 (completed @ drop 400 raws) \<and>
   (length completed = 400 \<longrightarrow> take 400 (out (resume_geocode api raws completed)) = completed) \<and>
   (\<forall>i < length (out (resume_geocode api raws completed)).
      out (resume_geocode api raws completed) ! i \<noteq> (completed @ drop 400 raws) ! i \<longrightarrow> 400 \<le> i) \<and>
   map raw_fields (out (resume_geocode api raws completed)) =
     map raw_fields (completed @ drop 400 raws)"
proof -
  let ?start = "completed @ drop 400 raws"
  let ?fin = "out (resume_geocode api raws completed)"
  have idx: "\<forall>i \<in> set [400 ..< length ?start]. 400 \<le> i"
    by simp
  have frame: "length ?fin = length ?start \<and> take 400 ?fin = take 400 ?start \<and>
               map raw_fields ?fin = map raw_fields ?start"
    using resume_fold_frame [OF idx, of api
        "\<lparr> out = ?start, success = length (filter is_geocoded (take 400 ?start)), written = [] \<rparr>"]
    by (simp add: resume_geocode_def Let_def)
  have below: "\<forall>i < length ?fin. ?fin ! i \<noteq> ?start ! i \<longrightarrow> 400 \<le> i"
  proof (intro allI impI)
    fix i
    assume "i < length ?fin" and ne: "?fin ! i \<noteq> ?start ! i"
    show "400 \<le> i"
    proof (rule ccontr)
      assume "\<not> 400 \<le> i"
      then have "i < 400" by simp
      then have "take 400 ?fin ! i = ?fin ! i" "take 400 ?start ! i = ?start ! i"
        by (rule nth_take)+
      with frame ne show False by metis
    qed
  qed
  have exact: "length completed = 400 \<longrightarrow> take 400 ?fin = completed"
    using frame by simp
  show ?thesis using frame below exact by blast
qed

theorem resume_keeps_completed_records_witness:
  "length (replicate 400 (kenitra_center quick_example)) = 400 \<and>
   out (resume_geocode (places_ok [kenitra_found]) (replicate 401 quick_example)
          (replicate 400 (kenitra_center quick_example))) =
     replicate 400 (kenitra_center quick_example) @
       [quick_example\<lparr> QuickDict.latitude := Some 34.26, QuickDict.longitude := Some (- 6.58),
                       QuickDict.geocoded := Some True \<rparr>] \<and>
   take 400 (out (resume_geocode (places_ok [kenitra_found]) (replicate 401 quick_example)
          (replicate 400 (kenitra_center quick_example)))) =
     replicate 400 (kenitra_center quick_example) \<and>
   out (resume_geocode (places_ok [kenitra_found]) (replicate 401 quick_example)
          (replicate 400 (kenitra_center quick_example))) ! 400 \<noteq>
     (replicate 400 (kenitra_center quick_example) @ drop 400 (replicate 401 quick_example)) ! 400"
proof -
  have run: "out (resume_geocode (places_ok [kenitra_found]) (replicate 401 quick_example)
          (replicate 400 (kenitra_center quick_example))) =
     replicate 400 (kenitra_center quick_example) @
       [quick_example\<lparr> QuickDict.latitude := Some 34.26, QuickDict.longitude := Some (- 6.58),
                       QuickDict.geocoded := Some True \<rparr>]"
    by (simp add: resume_geocode_def Let_def resume_step_def places_ok_def kenitra_found_def
        nth_append list_update_append upt_rec [of 400])
  have ne: "quick_example\<lparr> QuickDict.latitude := Some 34.26, QuickDict.longitude := Some (- 6.58),
                       QuickDict.geocoded := Some True \<rparr> \<noteq> quick_example"
    by (simp add: quick_example_def)
  show ?thesis
    using resume_keeps_completed_records [of "places_ok [kenitra_found]"
        "replicate 401 quick_example" "replicate 400 (kenitra_center quick_example)"] ne
    by (simp add: run nth_append)
qed

section \<open>The Code Emitter\<close>

lemma escaped_after_prev:
  "p \<noteq> backslash \<Longrightarrow> q \<noteq> backslash \<Longrightarrow> escaped_after p cs = escaped_after q cs"
  by (cases cs) auto

lemma escaped_after_append:
  "escaped_after p (xs @ ys) \<Longrightarrow> escaped_after p xs"
  by (induction xs arbitrary: p) auto

lemma escaped_after_dropWhile:
  assumes "escaped_after p xs" "p \<noteq> backslash"
  shows "escaped_after p (dropWhile isspace xs)"
  using assms
proof (induction xs arbitrary: p)
  case Nil
  then show ?case by simp
next
  case (Cons c cs)
  show ?case
  proof (cases "isspace c")
    case True
    then have c: "c \<noteq> backslash" by (auto simp: isspace_def backslash_def)
    from Cons.prems have "escaped_after c cs" by simp
    then have "escaped_after c (dropWhile isspace cs)" using c by (rule Cons.IH)
    then have "escaped_after p (dropWhile isspace cs)"
      using escaped_after_prev [OF c Cons.prems(2)] by simp
    with True show ?thesis by simp
  next
    case False
    with Cons.prems show ?thesis by simp
  qed
qed

lemma escaped_after_strip:
  assumes "escaped_after p xs" "p \<noteq> backslash"
  shows "escaped_after p (strip xs)"
proof -
  let ?ys = "dropWhile isspace xs"
  have ys: "escaped_after p ?ys" using assms by (rule escaped_after_dropWhile)
  have "rev ?ys = takeWhile isspace (rev ?ys) @ dropWhile isspace (rev ?ys)"
    by simp
  then have "?ys = rev (dropWhile isspace (rev ?ys)) @ rev (takeWhile isspace (rev ?ys))"
    by (metis rev_append rev_rev_ident)
  then have "escaped_after p (rev (dropWhile isspace (rev ?ys)) @ rev (takeWhile isspace (rev ?ys)))"
    using ys by simp
  then show ?thesis unfolding strip_def by (rule escaped_after_append)
qed

lemma escaped_after_replace:
  "escaped_after p (replace1 newline [space] (replace1 dquote [backslash, dquote] t))"
  by (induction t arbitrary: p)
    (auto simp: replace1_def newline_def space_def dquote_def backslash_def)

lemma escape_quotes_escaped: "quotes_escaped (escape_quotes t)"
  unfolding quotes_escaped_def escape_quotes_def
proof (rule escaped_after_strip)
  show "escaped_after dquote (replace1 newline [space] (replace1 dquote [backslash, dquote] t))"
    by (rule escaped_after_replace)
  show "dquote \<noteq> backslash"
    by (simp add: dquote_def backslash_def)
qed

text \<open>
  Claim C7, evaluated where it fails. \<open>_generate_pharmacy_entries\<close> passes the name
  and the address through \<open>_escape_quotes\<close> and writes the city as it is. A listing
  whose locality holds double quotes is parsed into a record with that city, and the
  entry of its pharmacy has the city line with the quotes unescaped, which ends the
  literal early; \<open>_escape_quotes\<close> on the same text would have escaped them.
\<close>

theorem city_is_emitted_unescaped:
  \<open>parse_listing ascii_digit 1 (py ''u'') quoted_city_listing = Some raw_quoted_city \<and>
   Pharmacy.city (make_pharmacy api now 0 raw_quoted_city) = py ''Sidi "Kacem"'' \<and>
   entry_lines repr (make_pharmacy api now 0 raw_quoted_city) ! 6 =
     py ''            city = "Sidi "Kacem"",'' \<and>
   quoted_texts (make_pharmacy api now 0 raw_quoted_city) ! 3 = py ''Sidi "Kacem"'' \<and>
   \<not> quotes_escaped (py ''Sidi "Kacem"'') \<and>
   escape_quotes (py ''Sidi "Kacem"'') = py ''Sidi '' @ [backslash, dquote] @ py ''Kacem'' @ [backslash, dquote] \<and>
   quotes_escaped (escape_quotes (py ''Sidi "Kacem"''))\<close>
proof -
  have a: \<open>parse_listing ascii_digit 1 (py ''u'') quoted_city_listing = Some raw_quoted_city\<close>
    by (simp add: parse_listing_def quoted_city_listing_def raw_quoted_city_def Let_def
        extract_city_def extract_phone_def replace1_def strip_def isspace_def py_def
        newline_def carriage_return_def)
  have b: \<open>Pharmacy.city (make_pharmacy api now 0 raw_quoted_city) = py ''Sidi "Kacem"''\<close>
    by (simp add: make_pharmacy_def raw_quoted_city_def Let_def)
  have c: \<open>entry_lines repr (make_pharmacy api now 0 raw_quoted_city) ! 6 =
     py ''            city = "Sidi "Kacem"",''\<close>
    by (simp add: entry_lines_def b) (simp add: py_def)
  have d: \<open>quoted_texts (make_pharmacy api now 0 raw_quoted_city) ! 3 = py ''Sidi "Kacem"''\<close>
    by (simp add: quoted_texts_def b)
  have e: \<open>\<not> quotes_escaped (py ''Sidi "Kacem"'')\<close>
    by (simp add: quotes_escaped_def py_def dquote_def backslash_def newline_def)
  have f: \<open>escape_quotes (py ''Sidi "Kacem"'') =
      py ''Sidi '' @ [backslash, dquote] @ py ''Kacem'' @ [backslash, dquote]\<close>
    by (simp add: escape_quotes_def replace1_def strip_def isspace_def py_def dquote_def
        backslash_def newline_def space_def)
  have g: \<open>quotes_escaped (escape_quotes (py ''Sidi "Kacem"''))\<close>
    by (rule escape_quotes_escaped)
  show ?thesis by (intro conjI a b c d e f g)
qed

section \<open>Further properties of the drivers and of the emitter\<close>

lemma escaped_after_no_newline: "escaped_after p xs \<Longrightarrow> newline \<notin> set xs"
  by (induction xs arbitrary: p) auto

text \<open>
  \<open>_escape_quotes\<close> always returns a text that is safe between double quotes: it has
  no raw newline, and each of its double quotes stands right after a backslash.
\<close>

theorem escape_quotes_is_safe:
  "quotes_escaped (escape_quotes t) \<and> newline \<notin> set (escape_quotes t)"
  using escape_quotes_escaped [of t] escaped_after_no_newline [of dquote "escape_quotes t"]
  by (simp add: quotes_escaped_def)

lemma geocode_loop_Inr:
  assumes "geocode_loop api now batch_size i raws (acc, w0) = Inr (ps, w)"
  shows "ps = acc @ map (\<lambda>(k, raw). make_pharmacy api now k raw) (zip [i ..< i + length raws] raws)"
proof (cases "batch_size = 0")
  case True
  with assms have "raws = []" by (cases raws) (simp_all add: Let_def)
  with assms show ?thesis by simp
next
  case False
  from geocode_loop_out [OF False, of api now i raws acc w0] assms show ?thesis by auto
qed

text \<open>
  What \<open>geocode_pharmacies\<close> does guarantee about the flag: \<open>geocoded\<close> is true
  exactly when the latitude is not \<open>0\<close>, and every record of the output whose
  \<open>geocoded\<close> is true has status \<open>OK\<close> and coordinates other than \<open>(0, 0)\<close>.
\<close>

theorem geocoded_implies_status_ok:
  "(Pharmacy.geocoded (make_pharmacy api now i raw) \<longleftrightarrow>
      Pharmacy.latitude (make_pharmacy api now i raw) \<noteq> 0) \<and>
   (geocode_pharmacies api now raws batch_size = Inr (ps, w) \<longrightarrow>
      (\<forall>p \<in> set ps. Pharmacy.geocoded p \<longrightarrow>
         geocode_status p = py ''OK'' \<and> (Pharmacy.latitude p, Pharmacy.longitude p) \<noteq> (0, 0)))"
proof -
  have "\<forall>p \<in> set ps. Pharmacy.geocoded p \<longrightarrow>
         geocode_status p = py ''OK'' \<and> (Pharmacy.latitude p, Pharmacy.longitude p) \<noteq> (0, 0)"
    if run: "geocode_pharmacies api now raws batch_size = Inr (ps, w)"
  proof -
    have ps: "ps = map (\<lambda>(k, raw). make_pharmacy api now k raw) (zip [0 ..< length raws] raws)"
      using geocode_loop_Inr [of api now batch_size 0 raws "[]" "[]" ps w] run
      by (simp add: geocode_pharmacies_def)
    show ?thesis
      unfolding ps using make_pharmacy_geocoded_ok by auto
  qed
  then show ?thesis using make_pharmacy_geocoded by blast
qed

theorem geocoded_implies_status_ok_witness:
  "geocode_pharmacies (geocoding_ok [kenitra_place]) clock_example [raw_example] 50 =
     Inr ([make_pharmacy (geocoding_ok [kenitra_place]) clock_example 0 raw_example], []) \<and>
   Pharmacy.geocoded (make_pharmacy (geocoding_ok [kenitra_place]) clock_example 0 raw_example) \<and>
   geocode_status (make_pharmacy (geocoding_ok [kenitra_place]) clock_example 0 raw_example) = py ''OK'' \<and>
   Pharmacy.latitude (make_pharmacy (geocoding_ok [kenitra_place]) clock_example 0 raw_example) = 34.26"
proof -
  have run: "geocode_pharmacies (geocoding_ok [kenitra_place]) clock_example [raw_example] 50 =
     Inr ([make_pharmacy (geocoding_ok [kenitra_place]) clock_example 0 raw_example], [])"
    by (simp add: geocode_pharmacies_def Let_def)
  have g: "Pharmacy.geocoded (make_pharmacy (geocoding_ok [kenitra_place]) clock_example 0 raw_example)"
    "Pharmacy.latitude (make_pharmacy (geocoding_ok [kenitra_place]) clock_example 0 raw_example) = 34.26"
    by (simp_all add: make_pharmacy_def geocode_address_def geocoding_ok_def kenitra_place_def Let_def)
  show ?thesis
    using geocoded_implies_status_ok [of "geocoding_ok [kenitra_place]" clock_example 0 raw_example
        "[raw_example]" 50 "[make_pharmacy (geocoding_ok [kenitra_place]) clock_example 0 raw_example]" "[]"]
      run g
    by simp
qed

text \<open>
  \<open>geocode_pharmacies\<close> with a batch size other than \<open>0\<close> returns one record per
  input, in the order of the input, the record at index \<open>i\<close> made from the input at
  index \<open>i\<close>, with its name, address, city and phone and the id of position
  \<open>i + 1\<close>; when the request for it raises, the record has status \<open>ERROR\<close>, the
  coordinates \<open>(0, 0)\<close> and \<open>geocoded\<close> false.
\<close>

theorem geocode_pharmacies_one_per_input:
  "(batch_size \<noteq> 0 \<longrightarrow>
      (\<exists>w. geocode_pharmacies api now raws batch_size =
             Inr (map (\<lambda>(i, raw). make_pharmacy api now i raw) (zip [0 ..< length raws] raws), w))) \<and>
   Pharmacy.name (make_pharmacy api now i raw) = PharmacyRaw.name raw \<and>
   Pharmacy.address (make_pharmacy api now i raw) = PharmacyRaw.address raw \<and>
   Pharmacy.city (make_pharmacy api now i raw) = PharmacyRaw.city raw \<and>
   phone_number (make_pharmacy api now i raw) = PharmacyRaw.phone raw \<and>
   id' (make_pharmacy api now i raw) = py ''pharmacy_kenitra_'' @ fmt_04d (i + 1) \<and>
   (api i (PharmacyRaw.address raw @ py '', '' @ PharmacyRaw.city raw @ py '', Morocco'') = Raises \<longrightarrow>
      geocode_status (make_pharmacy api now i raw) = py ''ERROR'' \<and>
      Pharmacy.latitude (make_pharmacy api now i raw) = 0 \<and>
      Pharmacy.longitude (make_pharmacy api now i raw) = 0 \<and>
      \<not> Pharmacy.geocoded (make_pharmacy api now i raw))"
proof -
  have a: "batch_size \<noteq> 0 \<longrightarrow>
      (\<exists>w. geocode_pharmacies api now raws batch_size =
             Inr (map (\<lambda>(i, raw). make_pharmacy api now i raw) (zip [0 ..< length raws] raws), w))"
    using geocode_loop_out [of batch_size api now 0 raws "[]" "[]"]
    by (simp add: geocode_pharmacies_def)
  have b: "Pharmacy.name (make_pharmacy api now i raw) = PharmacyRaw.name raw"
    "Pharmacy.address (make_pharmacy api now i raw) = PharmacyRaw.address raw"
    "Pharmacy.city (make_pharmacy api now i raw) = PharmacyRaw.city raw"
    "phone_number (make_pharmacy api now i raw) = PharmacyRaw.phone raw"
    "id' (make_pharmacy api now i raw) = py ''pharmacy_kenitra_'' @ fmt_04d (i + 1)"
    by (simp_all add: make_pharmacy_def Let_def)
  have c: "api i (PharmacyRaw.address raw @ py '', '' @ PharmacyRaw.city raw @ py '', Morocco'') = Raises \<longrightarrow>
      geocode_status (make_pharmacy api now i raw) = py ''ERROR'' \<and>
      Pharmacy.latitude (make_pharmacy api now i raw) = 0 \<and>
      Pharmacy.longitude (make_pharmacy api now i raw) = 0 \<and>
      \<not> Pharmacy.geocoded (make_pharmacy api now i raw)"
    by (simp add: make_pharmacy_def geocode_address_def Let_def)
  show ?thesis using a b c by blast
qed

theorem geocode_pharmacies_one_per_input_witness:
  "(50::int) \<noteq> 0 \<and>
   geocoding_raises 0 (PharmacyRaw.address raw_example @ py '', '' @ PharmacyRaw.city raw_example @
      py '', Morocco'') = Raises \<and>
   geocode_pharmacies geocoding_raises clock_example [raw_example] 50 =
     Inr ([make_pharmacy geocoding_raises clock_example 0 raw_example], []) \<and>
   geocode_status (make_pharmacy geocoding_raises clock_example 0 raw_example) = py ''ERROR'' \<and>
   Pharmacy.latitude (make_pharmacy geocoding_raises clock_example 0 raw_example) = 0 \<and>
   Pharmacy.longitude (make_pharmacy geocoding_raises clock_example 0 raw_example) = 0 \<and>
   \<not> Pharmacy.geocoded (make_pharmacy geocoding_raises clock_example 0 raw_example) \<and>
   id' (make_pharmacy geocoding_raises clock_example 0 raw_example) = py ''pharmacy_kenitra_0001''"
proof -
  have run: "geocode_pharmacies geocoding_raises clock_example [raw_example] 50 =
     Inr ([make_pharmacy geocoding_raises clock_example 0 raw_example], [])"
    by (simp add: geocode_pharmacies_def Let_def)
  have r: "geocoding_raises 0 (PharmacyRaw.address raw_example @ py '', '' @
      PharmacyRaw.city raw_example @ py '', Morocco'') = Raises"
    by (simp add: geocoding_raises_def)
  have f: "fmt_04d 1 = py ''0001''"
    by (simp add: fmt_04d_def str_nat.simps py_def eval_nat_numeral)
  show ?thesis
    using geocode_pharmacies_one_per_input [of 50 geocoding_raises clock_example "[raw_example]" 0 raw_example]
      run r f
    by (simp add: py_append [symmetric])
qed

text \<open>
  quick\_geocode.py returns one record per input, in the order of the input, each with
  the scraper's keys of its input; when the request for a record raises, the record is
  its input with the fallback coordinates \<open>(34.261, -6.587)\<close> and \<open>geocoded\<close>
  false.
\<close>

theorem quick_geocode_one_per_input:
  "out (quick_geocode api raws) = map (quick_record api) (zip [1 ..< length raws + 1] raws) \<and>
   length (out (quick_geocode api raws)) = length raws \<and>
   raw_fields (quick_record api (i, p)) = raw_fields p \<and>
   (api i (PharmacyRaw.name p @ py '', Kenitra, Morocco'') = Raises \<longrightarrow>
      quick_record api (i, p) =
        p\<lparr> QuickDict.latitude := Some 34.261, QuickDict.longitude := Some (- 6.587),
           QuickDict.geocoded := Some False \<rparr>)"
proof -
  have a: "out (quick_geocode api raws) = map (quick_record api) (zip [1 ..< length raws + 1] raws)"
    using quick_geocode_fold [of api raws] by blast
  have b: "length (out (quick_geocode api raws)) = length raws"
    unfolding a by (simp del: upt_Suc)
  have c: "raw_fields (quick_record api (i, p)) = raw_fields p"
    by (simp add: quick_record_def quick_step_def kenitra_center_def raw_fields_def Let_def
        split: api_outcome.splits)
  have d: "api i (PharmacyRaw.name p @ py '', Kenitra, Morocco'') = Raises \<longrightarrow>
      quick_record api (i, p) =
        p\<lparr> QuickDict.latitude := Some 34.261, QuickDict.longitude := Some (- 6.587),
           QuickDict.geocoded := Some False \<rparr>"
    by (simp add: quick_record_def quick_step_def kenitra_center_def)
  show ?thesis using a b c d by blast
qed

theorem quick_geocode_one_per_input_witness:
  "places_raises 1 (PharmacyRaw.name quick_example @ py '', Kenitra, Morocco'') = Raises \<and>
   out (quick_geocode places_raises [quick_example]) =
     [quick_example\<lparr> QuickDict.latitude := Some 34.261, QuickDict.longitude := Some (- 6.587),
                     QuickDict.geocoded := Some False \<rparr>]"
  using quick_geocode_one_per_input [of places_raises "[quick_example]" 1 quick_example]
  by (simp add: places_raises_def)

end
